theory Spec2Isabelle
  imports Complex_Main "HOL-Library.Sublist"
begin

section \<open>JavaScript strings and the regular expressions of the scripts\<close>

text \<open>
  A corpus is a JavaScript string. It is modelled as a \<open>string\<close>, every \<open>char\<close> standing
  for one code unit in the range 0..255 (the Latin-1 part of UTF-16); the patterns of
  the scripts only name ASCII characters, digits and white space.
\<close>

datatype cclass =
    Chr char        \<comment> \<open>a literal character\<close>
  | NotChr char     \<comment> \<open>\<^verbatim>\<open>[^c]\<close>\<close>
  | Digit           \<comment> \<open>\<^verbatim>\<open>\d\<close>\<close>
  | Space           \<comment> \<open>\<^verbatim>\<open>\s\<close>\<close>
  | AnyChar         \<comment> \<open>\<^verbatim>\<open>[\s\S]\<close>\<close>

definition is_digit :: "char \<Rightarrow> bool" where
  "is_digit c = (c \<in> set ''0123456789'')"

definition is_space :: "char \<Rightarrow> bool" where
  \<comment> \<open>tab, line feed, vertical tab, form feed, carriage return, space, no-break space\<close>
  "is_space c = (c \<in> set [CHR 0x09, CHR 0x0A, CHR 0x0B, CHR 0x0C, CHR 0x0D, CHR 0x20, CHR 0xA0])"

fun cmatch :: "cclass \<Rightarrow> char \<Rightarrow> bool" where
  "cmatch (Chr a) c = (c = a)"
| "cmatch (NotChr a) c = (c \<noteq> a)"
| "cmatch Digit c = is_digit c"
| "cmatch Space c = is_space c"
| "cmatch AnyChar c = True"

text \<open>
  Canonicalisation under the \<^verbatim>\<open>i\<close> flag: for the characters of the one pattern that has
  the flag (\<^verbatim>\<open><style\<close>, \<^verbatim>\<open></style>\<close>) it is ASCII upper-casing.
\<close>

definition canon :: "char \<Rightarrow> char" where
  "canon c = (let n = (of_char c :: nat) in if 97 \<le> n \<and> n \<le> 122 then char_of (n - 32) else c)"

datatype regex =
    Lit string            \<comment> \<open>a run of literal characters\<close>
  | LitCI string          \<comment> \<open>the same under the \<^verbatim>\<open>i\<close> flag\<close>
  | Rep cclass nat        \<comment> \<open>greedy \<^verbatim>\<open>c{n,}\<close>: \<^verbatim>\<open>c*\<close> is \<open>Rep c 0\<close>, \<^verbatim>\<open>c+\<close> is \<open>Rep c 1\<close>\<close>
  | RepLazy cclass nat    \<comment> \<open>lazy \<^verbatim>\<open>c{n,}?\<close>\<close>
  | Seq regex regex
  | Alt regex regex       \<comment> \<open>\<^verbatim>\<open>a|b\<close>\<close>
  | Opt regex             \<comment> \<open>greedy \<^verbatim>\<open>a?\<close>\<close>
  | Group regex           \<comment> \<open>a capturing group\<close>

type_synonym captures = "string option list"

fun ngroups :: "regex \<Rightarrow> nat" where
  "ngroups (Lit l) = 0"
| "ngroups (LitCI l) = 0"
| "ngroups (Rep c n) = 0"
| "ngroups (RepLazy c n) = 0"
| "ngroups (Seq a b) = ngroups a + ngroups b"
| "ngroups (Alt a b) = ngroups a + ngroups b"
| "ngroups (Opt a) = ngroups a"
| "ngroups (Group a) = Suc (ngroups a)"

text \<open>
  The backtracking matcher at a fixed start position: every way the pattern matches a
  prefix of the input, in the order in which a backtracking engine tries them, each with
  its captures and the rest of the input. The match the engine reports is the first one.
\<close>

fun backtrack :: "regex \<Rightarrow> string \<Rightarrow> (captures \<times> string) list" where
  "backtrack (Lit l) s = (if prefix l s then [([], drop (length l) s)] else [])"
| "backtrack (LitCI l) s =
     (if length l \<le> length s \<and> map canon (take (length l) s) = map canon l
      then [([], drop (length l) s)] else [])"
| "backtrack (Rep c n) s =
     map (\<lambda>j. ([], drop j s)) (rev [n ..< Suc (length (takeWhile (cmatch c) s))])"
| "backtrack (RepLazy c n) s =
     map (\<lambda>j. ([], drop j s)) [n ..< Suc (length (takeWhile (cmatch c) s))]"
| "backtrack (Seq a b) s =
     concat (map (\<lambda>(cs, r). map (\<lambda>(cs', r'). (cs @ cs', r')) (backtrack b r)) (backtrack a s))"
| "backtrack (Alt a b) s =
     map (\<lambda>(cs, r). (cs @ replicate (ngroups b) None, r)) (backtrack a s) @
     map (\<lambda>(cs, r). (replicate (ngroups a) None @ cs, r)) (backtrack b s)"
| "backtrack (Opt a) s = backtrack a s @ [(replicate (ngroups a) None, s)]"
| "backtrack (Group a) s =
     map (\<lambda>(cs, r). (Some (take (length s - length r) s) # cs, r)) (backtrack a s)"

text \<open>
  \<^verbatim>\<open>str.match(re)\<close> without the \<^verbatim>\<open>g\<close> flag: the leftmost match, as the matched text and
  the captures, or \<open>None\<close> for \<^verbatim>\<open>null\<close>.
\<close>

fun js_match :: "regex \<Rightarrow> string \<Rightarrow> (string \<times> captures) option" where
  "js_match r [] =
     (case backtrack r [] of [] \<Rightarrow> None | (cs, rest) # _ \<Rightarrow> Some ([], cs))"
| "js_match r (c # s) =
     (case backtrack r (c # s) of
        [] \<Rightarrow> js_match r s
      | (cs, rest) # _ \<Rightarrow> Some (take (length (c # s) - length rest) (c # s), cs))"

text \<open>\<^verbatim>\<open>re.test(str)\<close> on a fresh pattern object (\<^verbatim>\<open>lastIndex\<close> is 0).\<close>

definition js_test :: "regex \<Rightarrow> string \<Rightarrow> bool" where
  "js_test r s = (js_match r s \<noteq> None)"

text \<open>
  \<^verbatim>\<open>str.match(re)\<close> with the \<^verbatim>\<open>g\<close> flag: the matched texts from left to right, without
  overlap; after an empty match the search moves on by one character. The empty list
  stands for \<^verbatim>\<open>null\<close> (JavaScript never returns an empty array here).
\<close>

function js_match_all :: "regex \<Rightarrow> string \<Rightarrow> string list" where
  "js_match_all r [] = (case backtrack r [] of [] \<Rightarrow> [] | _ # _ \<Rightarrow> [[]])"
| "js_match_all r (c # s) =
     (case backtrack r (c # s) of
        [] \<Rightarrow> js_match_all r s
      | (cs, rest) # _ \<Rightarrow>
          (if length rest < length (c # s)
           then take (length (c # s) - length rest) (c # s) # js_match_all r rest
           else [] # js_match_all r s))"
  by pat_completeness auto
termination
  by (relation "measure (\<lambda>(r, s). length s)") auto

text \<open>\<^verbatim>\<open>str.split(sep)\<close> for a string separator.\<close>

function split_from :: "string \<Rightarrow> string \<Rightarrow> string \<Rightarrow> string list" where
  "split_from sep acc [] = [acc]"
| "split_from sep acc (c # s) =
     (if sep \<noteq> [] \<and> prefix sep (c # s)
      then acc # split_from sep [] (drop (length sep) (c # s))
      else split_from sep (acc @ [c]) s)"
  by pat_completeness auto
termination
  by (relation "measure (\<lambda>(sep, acc, s). length s)") (auto simp: neq_Nil_conv)

definition js_split :: "string \<Rightarrow> string \<Rightarrow> string list" where
  "js_split s sep = (if sep = [] then map (\<lambda>c. [c]) s else split_from sep [] s)"

text \<open>\<^verbatim>\<open>str.includes(sub)\<close>.\<close>

fun js_includes :: "string \<Rightarrow> string \<Rightarrow> bool" where
  "js_includes [] sub = (sub = [])"
| "js_includes (c # s) sub = (prefix sub (c # s) \<or> js_includes s sub)"

text \<open>\<^verbatim>\<open>arr.join(sep)\<close>.\<close>

fun js_join :: "string \<Rightarrow> string list \<Rightarrow> string" where
  "js_join sep [] = []"
| "js_join sep [x] = x"
| "js_join sep (x # y # xs) = x @ sep @ js_join sep (y # xs)"

text \<open>
  \<^verbatim>\<open>parseInt\<close> on a text that starts with a decimal digit (every call site passes a
  match of \<^verbatim>\<open>\d+\<close>, so the \<^verbatim>\<open>NaN\<close> of a text without digits does not arise). The scripts
  only compare the result with constants below 1101, so the exact value stands for the
  double that JavaScript computes.
\<close>

definition digit_val :: "char \<Rightarrow> nat" where
  "digit_val c = of_char c - 48"

definition parseInt :: "string \<Rightarrow> nat" where
  "parseInt ds = foldl (\<lambda>a c. 10 * a + digit_val c) 0 (takeWhile is_digit ds)"


section \<open>test-responsive.js: the accumulated findings\<close>

text \<open>
  The three arrays \<^verbatim>\<open>issues\<close>, \<^verbatim>\<open>warnings\<close>, \<^verbatim>\<open>passed\<close> hold message texts. Each text of
  the script is one constructor here (the texts are pairwise different, and two of them
  carry a count, two the display name of an element):
  \<^item> \<open>TabletDefined\<close>: Breakpoint para tablet (768px) definido
  \<^item> \<open>TabletMissing\<close>: Falta breakpoint especifico para tablet (~768px)
  \<^item> \<open>MobileDefined\<close>: Breakpoint para mobile definido
  \<^item> \<open>MobileMissing\<close>: Falta breakpoint para mobile pequeno (~480px)
  \<^item> \<open>LargeFixedWidths n\<close>: n larguras fixas > 400px encontradas
  \<^item> \<open>NoFixedWidths\<close>: Sem larguras fixas problematicas
  \<^item> \<open>ResponsiveUnits\<close>: Usa unidades responsivas (vw, vh, rem, em, %, clamp)
  \<^item> \<open>FlexGrid\<close>: Usa Flexbox/Grid para layout
  \<^item> \<open>OverflowControl\<close>: Controle de overflow horizontal
  \<^item> \<open>OverflowMissing\<close>: Considere adicionar overflow-x: hidden no body
  \<^item> \<open>ClampFonts\<close>: Usa clamp() para fontes responsivas
  \<^item> \<open>LargePaddings n\<close>: n paddings > 100px encontrados
  \<^item> \<open>MaxWidth100\<close>: Imagens com max-width: 100%
  \<^item> \<open>ElementResponsive name\<close>: name: tem estilos responsivos
  \<^item> \<open>ElementNeedsReview name\<close>: name: pode precisar de ajustes mobile
\<close>

datatype finding =
    TabletDefined | TabletMissing
  | MobileDefined | MobileMissing
  | LargeFixedWidths nat | NoFixedWidths
  | ResponsiveUnits
  | FlexGrid
  | OverflowControl | OverflowMissing
  | ClampFonts
  | LargePaddings nat
  | MaxWidth100
  | ElementResponsive string | ElementNeedsReview string

text \<open>
  The calls of \<^verbatim>\<open>log(message, type)\<close>, in order, as the type and the message. Text printed
  with \<^verbatim>\<open>console.log\<close> directly (banners, the report's lines, the suggestions' snippets,
  the checklist's items) is not part of the model.
\<close>

datatype log_type = Info | Success | Error | Warning | Section

datatype log_msg =
    Analisando string               \<comment> \<open>Analisando: filename\<close>
  | MediaQueriesFound nat           \<comment> \<open>Media queries encontradas: n\<close>
  | TabletOK | TabletFaltando
  | MobileOK | MobileFaltando
  | LargurasGrandes nat | LargurasOK
  | UnidadesOK
  | LayoutOK
  | OverflowOK | OverflowRecomendado
  | FontesOK
  | PaddingsGrandes nat
  | ImagensOK
  | ElementosCriticos               \<comment> \<open>the section title of \<^verbatim>\<open>analyzeElements\<close>\<close>
  | Responsivo string | VerificarResponsividade string | NaoEncontrado string
  | Sugestoes                       \<comment> \<open>the section title of \<^verbatim>\<open>generateSuggestions\<close>\<close>
  | Checklist                       \<comment> \<open>the section title of \<^verbatim>\<open>printChecklist\<close>\<close>
  | ArquivoNaoEncontrado string     \<comment> \<open>Arquivo nao encontrado: file\<close>

record findings =
  issues :: "finding list"
  warnings :: "finding list"
  passed :: "finding list"

record state = findings +
  logged :: "(log_type \<times> log_msg) list"

definition init :: state where
  "init = \<lparr>issues = [], warnings = [], passed = [], logged = []\<rparr>"

definition log_out :: "log_msg \<Rightarrow> log_type \<Rightarrow> state \<Rightarrow> state" where
  "log_out message type st = st\<lparr>logged := logged st @ [(type, message)]\<rparr>"

definition push_issue :: "finding \<Rightarrow> state \<Rightarrow> state" where
  "push_issue f st = st\<lparr>issues := issues st @ [f]\<rparr>"

definition push_warning :: "finding \<Rightarrow> state \<Rightarrow> state" where
  "push_warning f st = st\<lparr>warnings := warnings st @ [f]\<rparr>"

definition push_passed :: "finding \<Rightarrow> state \<Rightarrow> state" where
  "push_passed f st = st\<lparr>passed := passed st @ [f]\<rparr>"

section \<open>analyzeCSS\<close>

text \<open>The patterns of \<^verbatim>\<open>analyzeCSS\<close>, each next to its source text.\<close>

definition re_media :: regex where  \<comment> \<open>\<^verbatim>\<open>/@media[^{]+\{/g\<close>\<close>
  "re_media = Seq (Lit ''@media'') (Seq (Rep (NotChr CHR ''{'') 1) (Lit ''{''))"

definition re_max_width :: regex where  \<comment> \<open>\<^verbatim>\<open>/max-width:\s*(\d+)px/\<close>\<close>
  "re_max_width =
     Seq (Lit ''max-width:'') (Seq (Rep Space 0) (Seq (Group (Rep Digit 1)) (Lit ''px'')))"

definition re_min_width :: regex where  \<comment> \<open>\<^verbatim>\<open>/min-width:\s*(\d+)px/\<close>\<close>
  "re_min_width =
     Seq (Lit ''min-width:'') (Seq (Rep Space 0) (Seq (Group (Rep Digit 1)) (Lit ''px'')))"

definition re_fixed_width :: regex where  \<comment> \<open>\<^verbatim>\<open>/width:\s*\d{3,}px/g\<close>\<close>
  "re_fixed_width = Seq (Lit ''width:'') (Seq (Rep Space 0) (Seq (Rep Digit 3) (Lit ''px'')))"

definition re_digits :: regex where  \<comment> \<open>\<^verbatim>\<open>/\d+/\<close>\<close>
  "re_digits = Rep Digit 1"

definition re_units :: regex where  \<comment> \<open>\<^verbatim>\<open>/\d+(\.\d+)?(vw|vh|rem|em|%|clamp)/g\<close>\<close>
  "re_units =
     Seq (Rep Digit 1)
       (Seq (Opt (Group (Seq (Lit ''.'') (Rep Digit 1))))
          (Group (Alt (Lit ''vw'') (Alt (Lit ''vh'') (Alt (Lit ''rem'')
             (Alt (Lit ''em'') (Alt (Lit ''%'') (Lit ''clamp''))))))))"

definition re_flex :: regex where  \<comment> \<open>\<^verbatim>\<open>/display:\s*flex/g\<close>\<close>
  "re_flex = Seq (Lit ''display:'') (Seq (Rep Space 0) (Lit ''flex''))"

definition re_grid :: regex where  \<comment> \<open>\<^verbatim>\<open>/display:\s*grid/g\<close>\<close>
  "re_grid = Seq (Lit ''display:'') (Seq (Rep Space 0) (Lit ''grid''))"

definition re_overflow :: regex where  \<comment> \<open>\<^verbatim>\<open>/overflow-x:\s*hidden/g\<close>\<close>
  "re_overflow = Seq (Lit ''overflow-x:'') (Seq (Rep Space 0) (Lit ''hidden''))"

definition re_clamp_font :: regex where  \<comment> \<open>\<^verbatim>\<open>/font-size:\s*clamp/g\<close>\<close>
  "re_clamp_font = Seq (Lit ''font-size:'') (Seq (Rep Space 0) (Lit ''clamp''))"

definition re_padding :: regex where  \<comment> \<open>\<^verbatim>\<open>/padding:\s*\d{3,}px/g\<close>\<close>
  "re_padding = Seq (Lit ''padding:'') (Seq (Rep Space 0) (Seq (Rep Digit 3) (Lit ''px'')))"

definition re_max_width_100 :: regex where  \<comment> \<open>\<^verbatim>\<open>/max-width:\s*100%/g\<close>\<close>
  "re_max_width_100 = Seq (Lit ''max-width:'') (Seq (Rep Space 0) (Lit ''100%''))"

text \<open>
  The body of \<^verbatim>\<open>mediaQueries.forEach\<close>: the values one media query prefix adds to
  \<^verbatim>\<open>mqBreakpoints\<close>, its first \<^verbatim>\<open>max-width\<close> and then its first \<^verbatim>\<open>min-width\<close>.
\<close>

definition capture1 :: "(string \<times> captures) option \<Rightarrow> string option" where
  "capture1 m = (case m of Some (whole, Some c # cs) \<Rightarrow> Some c | _ \<Rightarrow> None)"

definition mq_breakpoints :: "string \<Rightarrow> nat list" where
  "mq_breakpoints mq =
     (case capture1 (js_match re_max_width mq) of Some d \<Rightarrow> [parseInt d] | None \<Rightarrow> []) @
     (case capture1 (js_match re_min_width mq) of Some d \<Rightarrow> [parseInt d] | None \<Rightarrow> [])"

definition mqBreakpoints :: "string \<Rightarrow> nat list" where
  "mqBreakpoints content = concat (map mq_breakpoints (js_match_all re_media content))"

definition hasTablet :: "string \<Rightarrow> bool" where
  "hasTablet content = list_ex (\<lambda>bp. 600 \<le> bp \<and> bp \<le> 900) (mqBreakpoints content)"

definition hasMobile :: "string \<Rightarrow> bool" where
  "hasMobile content = list_ex (\<lambda>bp. bp \<le> 500) (mqBreakpoints content)"

definition hasLaptop :: "string \<Rightarrow> bool" where
  "hasLaptop content = list_ex (\<lambda>bp. 1000 \<le> bp \<and> bp \<le> 1100) (mqBreakpoints content)"

text \<open>Step 1 of \<^verbatim>\<open>analyzeCSS\<close>: the media queries and the two breakpoint rules.\<close>

definition check_tablet :: "string \<Rightarrow> state \<Rightarrow> state" where
  "check_tablet content st =
     (if hasTablet content then log_out TabletOK Success (push_passed TabletDefined st)
      else log_out TabletFaltando Warning (push_warning TabletMissing st))"

definition check_mobile :: "string \<Rightarrow> state \<Rightarrow> state" where
  "check_mobile content st =
     (if hasMobile content then log_out MobileOK Success (push_passed MobileDefined st)
      else log_out MobileFaltando Error (push_issue MobileMissing st))"

text \<open>Step 2: fixed widths.\<close>

definition fixedWidths :: "string \<Rightarrow> string list" where
  "fixedWidths content = js_match_all re_fixed_width content"

definition width_val :: "string \<Rightarrow> nat" where
  \<comment> \<open>\<^verbatim>\<open>parseInt(w.match(/\d+/)[0])\<close>; a match of the width pattern always holds digits\<close>
  "width_val w = (case js_match re_digits w of Some (d, cs) \<Rightarrow> parseInt d | None \<Rightarrow> 0)"

definition largeFixedWidths :: "string \<Rightarrow> string list" where
  "largeFixedWidths content = filter (\<lambda>w. width_val w > 400) (fixedWidths content)"

definition check_fixed_widths :: "string \<Rightarrow> state \<Rightarrow> state" where
  "check_fixed_widths content st =
     (let n = length (largeFixedWidths content) in
      if n > 0 then log_out (LargurasGrandes n) Warning (push_warning (LargeFixedWidths n) st)
      else log_out LargurasOK Success (push_passed NoFixedWidths st))"

text \<open>Step 3: responsive units.\<close>

definition hasResponsiveUnits :: "string \<Rightarrow> bool" where
  "hasResponsiveUnits content = js_test re_units content"

definition check_units :: "string \<Rightarrow> state \<Rightarrow> state" where
  "check_units content st =
     (if hasResponsiveUnits content then log_out UnidadesOK Success (push_passed ResponsiveUnits st)
      else st)"

text \<open>Step 4: flexbox and grid.\<close>

definition check_layout :: "string \<Rightarrow> state \<Rightarrow> state" where
  "check_layout content st =
     (if js_test re_flex content \<or> js_test re_grid content
      then log_out LayoutOK Success (push_passed FlexGrid st)
      else st)"

text \<open>Step 5: overflow-x.\<close>

definition check_overflow :: "string \<Rightarrow> state \<Rightarrow> state" where
  "check_overflow content st =
     (if js_test re_overflow content then log_out OverflowOK Success (push_passed OverflowControl st)
      else log_out OverflowRecomendado Warning (push_warning OverflowMissing st))"

text \<open>Step 6: responsive font sizes.\<close>

definition check_clamp_fonts :: "string \<Rightarrow> state \<Rightarrow> state" where
  "check_clamp_fonts content st =
     (if js_test re_clamp_font content then log_out FontesOK Success (push_passed ClampFonts st)
      else st)"

text \<open>Step 7: large paddings.\<close>

definition largePaddings :: "string \<Rightarrow> string list" where
  "largePaddings content = js_match_all re_padding content"

definition check_paddings :: "string \<Rightarrow> state \<Rightarrow> state" where
  "check_paddings content st =
     (let n = length (largePaddings content) in
      if n > 0 then log_out (PaddingsGrandes n) Warning (push_warning (LargePaddings n) st)
      else st)"

text \<open>Step 8: responsive images.\<close>

definition check_images :: "string \<Rightarrow> state \<Rightarrow> state" where
  "check_images content st =
     (if js_test re_max_width_100 content then log_out ImagensOK Success (push_passed MaxWidth100 st)
      else st)"

record analysis =
  a_mqBreakpoints :: "nat list"
  a_hasTablet :: bool
  a_hasMobile :: bool

definition analyzeCSS :: "string \<Rightarrow> string \<Rightarrow> state \<Rightarrow> analysis \<times> state" where
  "analyzeCSS content filename st =
     (let st = log_out (Analisando filename) Section st;
          st = log_out (MediaQueriesFound (length (js_match_all re_media content))) Info st;
          st = check_tablet content st;
          st = check_mobile content st;
          st = check_fixed_widths content st;
          st = check_units content st;
          st = check_layout content st;
          st = check_overflow content st;
          st = check_clamp_fonts content st;
          st = check_paddings content st;
          st = check_images content st
      in (\<lparr>a_mqBreakpoints = mqBreakpoints content,
           a_hasTablet = hasTablet content,
           a_hasMobile = hasMobile content\<rparr>, st))"

section \<open>analyzeElements\<close>

text \<open>
  The catalog \<^verbatim>\<open>criticalElements\<close>, as pairs of selector and display name (the display
  names are written without their diacritics).
\<close>

definition criticalElements :: "(string \<times> string) list" where
  "criticalElements =
     [(''.container'', ''Container principal''),
      (''.hero'', ''Secao Hero''),
      (''.logo'', ''Logo''),
      (''.form-section'', ''Formulario''),
      (''.submit-btn'', ''Botao de envio''),
      (''.form-grid'', ''Grid do formulario''),
      (''.text-block'', ''Blocos de texto''),
      (''.benefits-grid'', ''Grid de beneficios''),
      (''.benefit-card'', ''Cards de beneficio''),
      (''.partnership-container'', ''Secao parceria'')]"

text \<open>
  The pattern built by \<^verbatim>\<open>new RegExp(`\\${el.selector}\\s*\\{[^}]*\\}`, 'g')\<close>: the backslash
  escapes the selector's leading dot, and the other characters of every selector of the
  catalog (letters and hyphens) stand for themselves.
\<close>

definition re_block :: "string \<Rightarrow> regex" where
  "re_block selector =
     Seq (Lit selector) (Seq (Rep Space 0) (Seq (Lit ''{'') (Seq (Rep (NotChr CHR ''}'') 0) (Lit ''}''))))"

definition el_matches :: "string \<Rightarrow> string \<Rightarrow> string list" where
  "el_matches content selector = js_match_all (re_block selector) content"

text \<open>
  The loop over \<^verbatim>\<open>mediaBlocks\<close> from index 1: whether a fragment after the first
  \<^verbatim>\<open>@media\<close> includes the selector without its dot.
\<close>

definition hasResponsive :: "string \<Rightarrow> string \<Rightarrow> bool" where
  "hasResponsive content selector =
     list_ex (\<lambda>block. js_includes block (drop 1 selector)) (drop 1 (js_split content ''@media''))"

definition analyzeElement :: "string \<Rightarrow> string \<times> string \<Rightarrow> state \<Rightarrow> state" where
  "analyzeElement content el st =
     (case el of (selector, name) \<Rightarrow>
       if length (el_matches content selector) > 0 then
         (if hasResponsive content selector
          then log_out (Responsivo name) Success (push_passed (ElementResponsive name) st)
          else log_out (VerificarResponsividade name) Warning
                 (push_warning (ElementNeedsReview name) st))
       else log_out (NaoEncontrado name) Info st)"

definition analyzeElements :: "string \<Rightarrow> state \<Rightarrow> state" where
  "analyzeElements content st =
     foldl (\<lambda>st el. analyzeElement content el st) (log_out ElementosCriticos Section st) criticalElements"

section \<open>generateSuggestions, printChecklist, printReport\<close>

datatype priority = ALTA | MEDIA

text \<open>
  The three suggestions, by their message: the mobile breakpoint (ALTA), the touch
  targets (MEDIA), the form inputs (ALTA).
\<close>

datatype suggestion = SuggestMobileBreakpoint | SuggestTouchTargets | SuggestFormInputs

fun priority_of :: "suggestion \<Rightarrow> priority" where
  "priority_of SuggestMobileBreakpoint = ALTA"
| "priority_of SuggestTouchTargets = MEDIA"
| "priority_of SuggestFormInputs = ALTA"

definition generateSuggestions :: "analysis \<Rightarrow> state \<Rightarrow> suggestion list \<times> state" where
  "generateSuggestions an st =
     ((if \<not> a_hasMobile an then [SuggestMobileBreakpoint] else []) @
        [SuggestTouchTargets, SuggestFormInputs],
      log_out Sugestoes Section st)"

definition printChecklist :: "state \<Rightarrow> state" where
  "printChecklist st = log_out Checklist Section st"

text \<open>
  The score is a JavaScript number: \<^verbatim>\<open>0 / 0\<close> is \<^verbatim>\<open>NaN\<close>, and \<^verbatim>\<open>Math.round\<close> and the
  product by 100 keep it. For a positive total the quotient is taken exactly (the script
  computes it in double precision), and \<^verbatim>\<open>Math.round\<close> rounds a half upwards, as
  \<^const>\<open>round\<close> does.
\<close>

datatype score = NaN | Score int

definition compute_score :: "nat \<Rightarrow> nat \<Rightarrow> nat \<Rightarrow> score" where
  "compute_score p w i =
     (if p + w + i = 0 then NaN
      else Score (round (real p / real (p + w + i) * 100)))"

datatype tier = Excelente | Bom | PrecisaMelhorias

text \<open>Every comparison with \<^verbatim>\<open>NaN\<close> is false, so \<^verbatim>\<open>NaN\<close> falls to the last branch.\<close>

fun status_of :: "score \<Rightarrow> tier" where
  "status_of NaN = PrecisaMelhorias"
| "status_of (Score n) = (if n \<ge> 90 then Excelente else if n \<ge> 70 then Bom else PrecisaMelhorias)"

record report = findings +
  score :: score

definition printReport :: "state \<Rightarrow> report" where
  "printReport st =
     \<lparr>issues = issues st, warnings = warnings st, passed = passed st,
      score = compute_score (length (passed st)) (length (warnings st)) (length (issues st))\<rparr>"

section \<open>main\<close>

text \<open>
  The file system is a partial map from file names to contents: \<open>None\<close> is a file for
  which \<^verbatim>\<open>fs.existsSync\<close> is false.
\<close>

definition re_style :: regex where  \<comment> \<open>\<^verbatim>\<open>/<style[^>]*>([\s\S]*?)<\/style>/gi\<close>\<close>
  "re_style =
     Seq (LitCI ''<style'') (Seq (Rep (NotChr CHR ''>'') 0) (Seq (Lit ''>'')
       (Seq (Group (RepLazy AnyChar 0)) (LitCI ''</style>''))))"

definition files :: "string list" where
  "files = [''index.html'', ''confirmacao.html'']"

definition process_file :: "string option \<Rightarrow> string \<Rightarrow> state \<Rightarrow> state" where
  \<comment> \<open>the body of the loop over \<^verbatim>\<open>files\<close>, for the content of the file (if it exists) and its name\<close>
  "process_file existing file st =
     (case existing of
        Some content \<Rightarrow>
          (let styleMatch = js_match_all re_style content in
           if styleMatch \<noteq> [] then
             (let css = js_join [CHR 0x0A] styleMatch;
                  (an, st) = analyzeCSS css file st;
                  st = analyzeElements css st;
                  (sugg, st) = generateSuggestions an st
              in st)
           else st)
      | None \<Rightarrow> log_out (ArquivoNaoEncontrado file) Warning st)"

definition process_files :: "(string \<Rightarrow> string option) \<Rightarrow> string list \<Rightarrow> state \<Rightarrow> state" where
  "process_files fs fl st = foldl (\<lambda>st file. process_file (fs file) file st) st fl"

definition run_files :: "(string \<Rightarrow> string option) \<Rightarrow> state" where
  "run_files fs = process_files fs files init"

definition exit_status :: "report \<Rightarrow> nat" where
  \<comment> \<open>\<^verbatim>\<open>process.exit(report.issues.length > 0 ? 1 : 0)\<close>\<close>
  "exit_status rep = (if length (issues rep) > 0 then 1 else 0)"

definition main :: "(string \<Rightarrow> string option) \<Rightarrow> nat" where
  "main fs = exit_status (printReport (printChecklist (run_files fs)))"

text \<open>A directory in which neither of the two files exists.\<close>

definition no_files :: "string \<Rightarrow> string option" where
  "no_files file = None"

section \<open>test-visual.js: the touch-target check\<close>

text \<open>
  What the check reads of a clickable element: \<^verbatim>\<open>el.id\<close>, \<^verbatim>\<open>el.className\<close>,
  \<^verbatim>\<open>el.tagName\<close> and the width and height of \<^verbatim>\<open>el.getBoundingClientRect()\<close>, which are
  finite doubles and are compared exactly, hence reals here.
\<close>

record element =
  el_id :: string
  el_className :: string
  el_tagName :: string
  el_width :: real
  el_height :: real

definition ident :: "element \<Rightarrow> string" where
  \<comment> \<open>\<^verbatim>\<open>el.id || el.className || el.tagName\<close>: the first text that is not empty\<close>
  "ident el = (if el_id el \<noteq> [] then el_id el
               else if el_className el \<noteq> [] then el_className el else el_tagName el)"

definition flagged :: "element \<Rightarrow> bool" where
  "flagged el =
     (el_width el > 0 \<and> el_height el > 0 \<and> (el_width el < 44 \<or> el_height el < 44) \<and>
      \<not> js_includes (ident el) ''checkbox'')"

text \<open>
  The list \<^verbatim>\<open>smallTouchTargets\<close>: one entry per flagged element, in document order, as
  the tag name and the two sizes (the script prints them with \<^verbatim>\<open>toFixed(0)\<close>).
\<close>

definition smallTouchTargets :: "element list \<Rightarrow> (string \<times> real \<times> real) list" where
  "smallTouchTargets clickables =
     map (\<lambda>el. (el_tagName el, el_width el, el_height el)) (filter flagged clickables)"

section \<open>The findings one corpus yields\<close>

text \<open>
  The entries that \<^const>\<open>analyzeCSS\<close> adds to the three arrays for a corpus, in the order
  of its steps. They are used to state what the function does (\<open>analyzeCSS_passed\<close>,
  \<open>analyzeCSS_warnings\<close>, \<open>analyzeCSS_issues\<close> below).
\<close>

definition css_passed :: "string \<Rightarrow> finding list" where
  "css_passed content =
     (if hasTablet content then [TabletDefined] else []) @
     (if hasMobile content then [MobileDefined] else []) @
     (if length (largeFixedWidths content) > 0 then [] else [NoFixedWidths]) @
     (if hasResponsiveUnits content then [ResponsiveUnits] else []) @
     (if js_test re_flex content \<or> js_test re_grid content then [FlexGrid] else []) @
     (if js_test re_overflow content then [OverflowControl] else []) @
     (if js_test re_clamp_font content then [ClampFonts] else []) @
     (if js_test re_max_width_100 content then [MaxWidth100] else [])"

definition css_warnings :: "string \<Rightarrow> finding list" where
  "css_warnings content =
     (if hasTablet content then [] else [TabletMissing]) @
     (if length (largeFixedWidths content) > 0
      then [LargeFixedWidths (length (largeFixedWidths content))] else []) @
     (if js_test re_overflow content then [] else [OverflowMissing]) @
     (if length (largePaddings content) > 0
      then [LargePaddings (length (largePaddings content))] else [])"

definition css_issues :: "string \<Rightarrow> finding list" where
  "css_issues content = (if hasMobile content then [] else [MobileMissing])"

text \<open>
  The entries that the loop of \<^const>\<open>analyzeElements\<close> adds for a list of catalog entries:
  a pass for every selector that has a declaration block and a responsive override, a
  warning for every other selector that has a declaration block, and one log line for
  every entry.
\<close>

definition el_passed :: "string \<Rightarrow> (string \<times> string) list \<Rightarrow> finding list" where
  "el_passed content els =
     map (\<lambda>(selector, name). ElementResponsive name)
       (filter (\<lambda>(selector, name).
          el_matches content selector \<noteq> [] \<and> hasResponsive content selector) els)"

definition el_warnings :: "string \<Rightarrow> (string \<times> string) list \<Rightarrow> finding list" where
  "el_warnings content els =
     map (\<lambda>(selector, name). ElementNeedsReview name)
       (filter (\<lambda>(selector, name).
          el_matches content selector \<noteq> [] \<and> \<not> hasResponsive content selector) els)"

definition el_logged :: "string \<Rightarrow> (string \<times> string) list \<Rightarrow> (log_type \<times> log_msg) list" where
  "el_logged content els =
     map (\<lambda>(selector, name).
       if el_matches content selector = [] then (Info, NaoEncontrado name)
       else if hasResponsive content selector then (Success, Responsivo name)
       else (Warning, VerificarResponsividade name)) els"

text \<open>
  The corpus that the loop body of \<^verbatim>\<open>main\<close> analyses for a file: the style blocks joined
  by line feeds, or \<open>None\<close> when the file is missing or the style pattern matches nothing.
\<close>

definition corpus_of :: "string option \<Rightarrow> string option" where
  "corpus_of existing =
     (case existing of
        Some content \<Rightarrow>
          (let styleMatch = js_match_all re_style content in
           if styleMatch \<noteq> [] then Some (js_join [CHR 0x0A] styleMatch) else None)
      | None \<Rightarrow> None)"

text \<open>
  The suffixes that the pattern of the responsive-units step accepts after a digit, and the
  last group of that pattern on its own.
\<close>

definition unit_suffixes :: "string list" where
  "unit_suffixes = [''vw'', ''vh'', ''rem'', ''em'', ''%'', ''clamp'']"

definition re_unit_alt :: regex where
  "re_unit_alt = Group (Alt (Lit ''vw'') (Alt (Lit ''vh'') (Alt (Lit ''rem'')
             (Alt (Lit ''em'') (Alt (Lit ''%'') (Lit ''clamp''))))))"

section \<open>Properties of the state operations\<close>

lemma log_out_fields [simp]:
  "issues (log_out m t st) = issues st"
  "warnings (log_out m t st) = warnings st"
  "passed (log_out m t st) = passed st"
  "logged (log_out m t st) = logged st @ [(t, m)]"
  by (simp_all add: log_out_def)

lemma push_issue_fields [simp]:
  "issues (push_issue f st) = issues st @ [f]"
  "warnings (push_issue f st) = warnings st"
  "passed (push_issue f st) = passed st"
  "logged (push_issue f st) = logged st"
  by (simp_all add: push_issue_def)

lemma push_warning_fields [simp]:
  "issues (push_warning f st) = issues st"
  "warnings (push_warning f st) = warnings st @ [f]"
  "passed (push_warning f st) = passed st"
  "logged (push_warning f st) = logged st"
  by (simp_all add: push_warning_def)

lemma push_passed_fields [simp]:
  "issues (push_passed f st) = issues st"
  "warnings (push_passed f st) = warnings st"
  "passed (push_passed f st) = passed st @ [f]"
  "logged (push_passed f st) = logged st"
  by (simp_all add: push_passed_def)

lemmas check_defs = check_tablet_def check_mobile_def check_fixed_widths_def check_units_def
  check_layout_def check_overflow_def check_clamp_fonts_def check_paddings_def check_images_def

lemma analyzeCSS_passed:
  "passed (snd (analyzeCSS content filename st)) = passed st @ css_passed content"
  by (simp add: analyzeCSS_def css_passed_def check_defs Let_def)

lemma analyzeCSS_warnings:
  "warnings (snd (analyzeCSS content filename st)) = warnings st @ css_warnings content"
  by (simp add: analyzeCSS_def css_warnings_def check_defs Let_def)

lemma analyzeCSS_issues:
  "issues (snd (analyzeCSS content filename st)) = issues st @ css_issues content"
  by (simp add: analyzeCSS_def css_issues_def check_defs Let_def)

lemma analyzeCSS_hasMobile:
  "a_hasMobile (fst (analyzeCSS content filename st)) = hasMobile content"
  by (simp add: analyzeCSS_def Let_def)

lemma css_passed_empty: "css_passed [] = [NoFixedWidths]"
  by code_simp

lemma css_warnings_empty: "css_warnings [] = [TabletMissing, OverflowMissing]"
  by code_simp

lemma css_issues_empty: "css_issues [] = [MobileMissing]"
  by code_simp

lemma compute_score_positive:
  "0 < p + w + i \<Longrightarrow> compute_score p w i = Score (round (real p / real (p + w + i) * 100))"
  by (simp add: compute_score_def)

text \<open>The same score in integer arithmetic: the quotient rounded to the nearest, a half upwards.\<close>

lemma round_share:
  fixes p t :: nat
  assumes "0 < t"
  shows "round (real p / real t * 100) = int ((200 * p + t) div (2 * t))"
proof -
  have "real p / real t * 100 + 1 / 2 = real (200 * p + t) / real (2 * t)"
    using assms by (simp add: field_simps)
  then have "round (real p / real t * 100) = \<lfloor>real (200 * p + t) / real (2 * t)\<rfloor>"
    by (simp add: round_def)
  also have "\<dots> = int ((200 * p + t) div (2 * t))"
    by (rule floor_divide_of_nat_eq)
  finally show ?thesis .
qed

lemma compute_score_div:
  "0 < p + w + i \<Longrightarrow>
     compute_score p w i = Score (int ((200 * p + (p + w + i)) div (2 * (p + w + i))))"
  using round_share [of "p + w + i" p] by (simp add: compute_score_def)

lemma printReport_fields [simp]:
  "issues (printReport st) = issues st"
  "warnings (printReport st) = warnings st"
  "passed (printReport st) = passed st"
  by (simp_all add: printReport_def)

lemma printChecklist_fields [simp]:
  "issues (printChecklist st) = issues st"
  "warnings (printChecklist st) = warnings st"
  "passed (printChecklist st) = passed st"
  by (simp_all add: printChecklist_def)

lemma analyzeElement_fields:
  "passed (analyzeElement content (selector, name) st) =
     passed st @ el_passed content [(selector, name)]"
  "warnings (analyzeElement content (selector, name) st) =
     warnings st @ el_warnings content [(selector, name)]"
  "issues (analyzeElement content (selector, name) st) = issues st"
  "logged (analyzeElement content (selector, name) st) =
     logged st @ el_logged content [(selector, name)]"
  by (simp_all add: analyzeElement_def el_passed_def el_warnings_def el_logged_def)

lemma el_append:
  "el_passed content (x # els) = el_passed content [x] @ el_passed content els"
  "el_warnings content (x # els) = el_warnings content [x] @ el_warnings content els"
  "el_logged content (x # els) = el_logged content [x] @ el_logged content els"
  by (simp_all add: el_passed_def el_warnings_def el_logged_def)

lemma foldl_analyzeElement:
  "passed (foldl (\<lambda>st el. analyzeElement content el st) st els) =
     passed st @ el_passed content els \<and>
   warnings (foldl (\<lambda>st el. analyzeElement content el st) st els) =
     warnings st @ el_warnings content els \<and>
   issues (foldl (\<lambda>st el. analyzeElement content el st) st els) = issues st \<and>
   logged (foldl (\<lambda>st el. analyzeElement content el st) st els) =
     logged st @ el_logged content els"
proof (induction els arbitrary: st)
  case Nil
  show ?case by (simp add: el_passed_def el_warnings_def el_logged_def)
next
  case (Cons el els)
  obtain selector name where el: "el = (selector, name)" by (cases el)
  show ?case
    using Cons [of "analyzeElement content el st"]
    by (simp add: el analyzeElement_fields el_append [of content "(selector, name)" els])
qed

lemma analyzeElements_fields:
  "passed (analyzeElements content st) = passed st @ el_passed content criticalElements"
  "warnings (analyzeElements content st) = warnings st @ el_warnings content criticalElements"
  "issues (analyzeElements content st) = issues st"
  "logged (analyzeElements content st) =
     logged st @ (Section, ElementosCriticos) # el_logged content criticalElements"
  using foldl_analyzeElement [of content "log_out ElementosCriticos Section st" criticalElements]
  by (simp_all add: analyzeElements_def)

lemma generateSuggestions_fields [simp]:
  "passed (snd (generateSuggestions an st)) = passed st"
  "warnings (snd (generateSuggestions an st)) = warnings st"
  "issues (snd (generateSuggestions an st)) = issues st"
  by (simp_all add: generateSuggestions_def)

section \<open>The shape of the matches of the width pattern\<close>

lemma backtrack_Lit_shape:
  "(cs, r) \<in> set (backtrack (Lit l) s) \<Longrightarrow> s = l @ r"
  by (auto simp: prefix_def split: if_splits)

lemma take_le_takeWhile:
  "j \<le> length (takeWhile P s) \<Longrightarrow> list_all P (take j s)"
proof -
  assume j: "j \<le> length (takeWhile P s)"
  have "take j (takeWhile P s) = take j s"
    by (subst takeWhile_eq_take) (simp add: min_absorb1 j)
  moreover have "list_all P (take j (takeWhile P s))"
    by (auto simp: list_all_iff dest!: in_set_takeD set_takeWhileD)
  ultimately show ?thesis by simp
qed

lemma backtrack_Rep_shape:
  assumes "(cs, r) \<in> set (backtrack (Rep c n) s)"
  shows "\<exists>m. s = m @ r \<and> list_all (cmatch c) m \<and> n \<le> length m"
proof -
  from assms obtain j where j: "n \<le> j" "j \<le> length (takeWhile (cmatch c) s)" "r = drop j s"
    by auto
  have "j \<le> length s"
    using j(2) length_takeWhile_le [of "cmatch c" s] by linarith
  then have "s = take j s @ r \<and> list_all (cmatch c) (take j s) \<and> n \<le> length (take j s)"
    using j take_le_takeWhile [of j "cmatch c" s] by simp
  then show ?thesis by blast
qed

lemma backtrack_Seq_shape:
  "(cs, r) \<in> set (backtrack (Seq a b) s) \<Longrightarrow>
     \<exists>cs1 r1 cs2. (cs1, r1) \<in> set (backtrack a s) \<and> (cs2, r) \<in> set (backtrack b r1)"
  by auto













lemma cmatch_Digit: "cmatch Digit = is_digit"
  by (rule ext) simp




section \<open>What the pattern of the responsive-units step matches\<close>

lemma js_test_iff:
  "js_test r s \<longleftrightarrow> (\<exists>pre s'. s = pre @ s' \<and> backtrack r s' \<noteq> [])"
proof (induction s)
  case Nil
  show ?case by (simp add: js_test_def split: list.splits)
next
  case (Cons c s)
  show ?case
  proof (cases "backtrack r (c # s)")
    case Nil
    have "(\<exists>pre s'. c # s = pre @ s' \<and> backtrack r s' \<noteq> []) \<longleftrightarrow>
          (\<exists>pre s'. s = pre @ s' \<and> backtrack r s' \<noteq> [])"
    proof
      assume "\<exists>pre s'. c # s = pre @ s' \<and> backtrack r s' \<noteq> []"
      then obtain pre s' where p: "c # s = pre @ s'" "backtrack r s' \<noteq> []" by blast
      with Nil have "pre \<noteq> []" by auto
      then obtain pre' where "pre = c # pre'" "s = pre' @ s'"
        using p(1) by (cases pre) auto
      with p(2) show "\<exists>pre s'. s = pre @ s' \<and> backtrack r s' \<noteq> []" by blast
    next
      assume "\<exists>pre s'. s = pre @ s' \<and> backtrack r s' \<noteq> []"
      then obtain pre s' where "s = pre @ s'" "backtrack r s' \<noteq> []" by blast
      then have "c # s = (c # pre) @ s' \<and> backtrack r s' \<noteq> []" by simp
      then show "\<exists>pre s'. c # s = pre @ s' \<and> backtrack r s' \<noteq> []" by blast
    qed
    with Cons Nil show ?thesis by (simp add: js_test_def)
  next
    case (Cons a as)
    then have "c # s = [] @ (c # s) \<and> backtrack r (c # s) \<noteq> []" by simp
    then have "\<exists>pre s'. c # s = pre @ s' \<and> backtrack r s' \<noteq> []" by blast
    moreover have "js_test r (c # s)"
      using Cons by (simp add: js_test_def split: prod.splits)
    ultimately show ?thesis by simp
  qed
qed

lemma backtrack_Group_shape:
  "(cs, r) \<in> set (backtrack (Group a) s) \<Longrightarrow> \<exists>cs'. (cs', r) \<in> set (backtrack a s)"
  by auto

lemma backtrack_Alt_shape:
  "(cs, r) \<in> set (backtrack (Alt a b) s) \<Longrightarrow>
     (\<exists>cs'. (cs', r) \<in> set (backtrack a s)) \<or> (\<exists>cs'. (cs', r) \<in> set (backtrack b s))"
  by auto

lemma backtrack_Opt_shape:
  "(cs, r) \<in> set (backtrack (Opt a) s) \<Longrightarrow> (cs, r) \<in> set (backtrack a s) \<or> r = s"
  by auto

lemma unit_alt_shape:
  assumes "(cs, r) \<in> set (backtrack re_unit_alt s)"
  shows "\<exists>u \<in> set unit_suffixes. s = u @ r"
proof -
  from assms have "s = ''vw'' @ r \<or> s = ''vh'' @ r \<or> s = ''rem'' @ r \<or> s = ''em'' @ r \<or>
      s = ''%'' @ r \<or> s = ''clamp'' @ r"
    unfolding re_unit_alt_def
    by (blast dest: backtrack_Group_shape backtrack_Alt_shape backtrack_Lit_shape)
  then show ?thesis
    by (simp add: unit_suffixes_def)
qed

lemma digits_last:
  assumes "list_all is_digit ds" "1 \<le> length ds"
  shows "\<exists>ds' d. ds = ds' @ [d] \<and> is_digit d"
proof -
  from assms(2) have "ds \<noteq> []" by auto
  then have "ds = butlast ds @ [last ds]" by simp
  moreover have "is_digit (last ds)"
    using assms(1) \<open>ds \<noteq> []\<close> by (simp add: list_all_iff)
  ultimately show ?thesis by blast
qed

lemma units_match_shape:
  assumes "backtrack re_units s \<noteq> []"
  shows "\<exists>pre d u post. s = pre @ d # u @ post \<and> is_digit d \<and> u \<in> set unit_suffixes"
proof -
  from assms obtain cs r where "(cs, r) \<in> set (backtrack re_units s)"
    by (cases "backtrack re_units s") auto
  then have "(cs, r) \<in> set (backtrack (Seq (Rep Digit 1)
       (Seq (Opt (Group (Seq (Lit ''.'') (Rep Digit 1)))) re_unit_alt)) s)"
    by (simp only: re_units_def re_unit_alt_def)
  then obtain c1 r1 c2 where 1: "(c1, r1) \<in> set (backtrack (Rep Digit 1) s)"
    and 2: "(c2, r) \<in> set (backtrack (Seq (Opt (Group (Seq (Lit ''.'') (Rep Digit 1)))) re_unit_alt) r1)"
    by (blast dest: backtrack_Seq_shape)
  from 2 obtain c3 r3 c4 where 3: "(c3, r3) \<in> set (backtrack (Opt (Group (Seq (Lit ''.'') (Rep Digit 1)))) r1)"
    and 4: "(c4, r) \<in> set (backtrack re_unit_alt r3)"
    by (blast dest: backtrack_Seq_shape)
  from 1 obtain ds where ds: "s = ds @ r1" "list_all (cmatch Digit) ds" "1 \<le> length ds"
    by (blast dest: backtrack_Rep_shape)
  from 4 obtain u where u: "u \<in> set unit_suffixes" "r3 = u @ r"
    by (blast dest: unit_alt_shape)
  from 3 have "(c3, r3) \<in> set (backtrack (Group (Seq (Lit ''.'') (Rep Digit 1))) r1) \<or> r3 = r1"
    by (rule backtrack_Opt_shape)
  then show ?thesis
  proof
    assume "r3 = r1"
    from ds(2,3) obtain ds' d where d: "ds = ds' @ [d]" "is_digit d"
      by (auto simp: cmatch_Digit dest: digits_last)
    then have "s = ds' @ d # u @ r" using ds(1) u(2) \<open>r3 = r1\<close> by simp
    with d(2) u(1) show ?thesis by blast
  next
    assume "(c3, r3) \<in> set (backtrack (Group (Seq (Lit ''.'') (Rep Digit 1))) r1)"
    then obtain c5 where "(c5, r3) \<in> set (backtrack (Seq (Lit ''.'') (Rep Digit 1)) r1)"
      by (blast dest: backtrack_Group_shape)
    then obtain c6 r6 c7 where 6: "(c6, r6) \<in> set (backtrack (Lit ''.'') r1)"
      and 7: "(c7, r3) \<in> set (backtrack (Rep Digit 1) r6)"
      by (blast dest: backtrack_Seq_shape)
    from 7 obtain fs where fs: "r6 = fs @ r3" "list_all (cmatch Digit) fs" "1 \<le> length fs"
      by (blast dest: backtrack_Rep_shape)
    from fs(2,3) obtain fs' d where d: "fs = fs' @ [d]" "is_digit d"
      by (auto simp: cmatch_Digit dest: digits_last)
    from 6 have "r1 = ''.'' @ r6" by (rule backtrack_Lit_shape)
    then have "s = (ds @ ''.'' @ fs') @ d # u @ r"
      using ds(1) fs(1) d(1) u(2) by simp
    with d(2) u(1) show ?thesis by blast
  qed
qed

lemma units_match_at_digit:
  assumes "is_digit d" "u \<in> set unit_suffixes"
  shows "backtrack re_units (d # u @ post) \<noteq> []"
proof -
  have nd: "\<not> is_digit (CHR ''v'')" "\<not> is_digit (CHR ''r'')" "\<not> is_digit (CHR ''e'')"
    "\<not> is_digit (CHR ''%'')" "\<not> is_digit (CHR ''c'')"
    by (simp_all add: is_digit_def)
  from assms(2) consider "u = ''vw''" | "u = ''vh''" | "u = ''rem''" | "u = ''em''" | "u = ''%''"
    | "u = ''clamp''"
    by (auto simp: unit_suffixes_def)
  then show ?thesis
    using assms(1) nd by cases (simp_all add: re_units_def cmatch_Digit)
qed

lemma hasResponsiveUnits_iff:
  "hasResponsiveUnits content \<longleftrightarrow>
     (\<exists>pre d u post. content = pre @ d # u @ post \<and> is_digit d \<and> u \<in> set unit_suffixes)"
proof
  assume "hasResponsiveUnits content"
  then obtain pre s' where s: "content = pre @ s'" "backtrack re_units s' \<noteq> []"
    by (auto simp: hasResponsiveUnits_def js_test_iff)
  from units_match_shape [OF s(2)] obtain pre' d u post where
    "s' = pre' @ d # u @ post" "is_digit d" "u \<in> set unit_suffixes" by blast
  then have "content = (pre @ pre') @ d # u @ post \<and> is_digit d \<and> u \<in> set unit_suffixes"
    using s(1) by simp
  then show "\<exists>pre d u post. content = pre @ d # u @ post \<and> is_digit d \<and> u \<in> set unit_suffixes"
    by blast
next
  assume "\<exists>pre d u post. content = pre @ d # u @ post \<and> is_digit d \<and> u \<in> set unit_suffixes"
  then obtain pre d u post where c: "content = pre @ d # u @ post" "is_digit d"
    "u \<in> set unit_suffixes" by blast
  from units_match_at_digit [OF c(2,3)] have "backtrack re_units (d # u @ post) \<noteq> []" .
  with c(1) show "hasResponsiveUnits content"
    unfolding hasResponsiveUnits_def js_test_iff by blast
qed

section \<open>A corpus whose first at-rule is the 480px media query\<close>







section \<open>Properties of the driver\<close>

lemma process_file_fields:
  "passed (process_file existing file st) = passed st @
     (case corpus_of existing of
        Some css \<Rightarrow> css_passed css @ el_passed css criticalElements | None \<Rightarrow> [])"
  "warnings (process_file existing file st) = warnings st @
     (case corpus_of existing of
        Some css \<Rightarrow> css_warnings css @ el_warnings css criticalElements | None \<Rightarrow> [])"
  "issues (process_file existing file st) = issues st @
     (case corpus_of existing of Some css \<Rightarrow> css_issues css | None \<Rightarrow> [])"
  by (simp_all add: process_file_def corpus_of_def Let_def split_beta analyzeElements_fields
      analyzeCSS_passed analyzeCSS_warnings analyzeCSS_issues split: option.splits)

lemma process_files_prefix:
  "prefix (passed st) (passed (process_files fs fl st)) \<and>
   prefix (warnings st) (warnings (process_files fs fl st)) \<and>
   prefix (issues st) (issues (process_files fs fl st))"
proof (induction fl arbitrary: st)
  case Nil
  show ?case by (simp add: process_files_def)
next
  case (Cons f fl)
  let ?st = "process_file (fs f) f st"
  have step: "prefix (passed st) (passed ?st)" "prefix (warnings st) (warnings ?st)"
    "prefix (issues st) (issues ?st)"
    by (simp_all add: process_file_fields)
  have unfold: "process_files fs (f # fl) st = process_files fs fl ?st"
    by (simp add: process_files_def)
  show ?case
    using Cons [of ?st] step unfolding unfold by (blast intro: prefix_order.trans)
qed

lemma process_file_skip:
  "js_match_all re_style content = [] \<Longrightarrow> process_file (Some content) file st = st"
  by (simp add: process_file_def)

lemma ident_update [simp]:
  "ident (el\<lparr>el_width := w\<rparr>) = ident el"
  "ident (el\<lparr>el_height := h\<rparr>) = ident el"
  by (simp_all add: ident_def)

section \<open>The score of a run without findings\<close>

text \<open>
  C1. The report computes the score as the rounded hundredfold of the share of passes.
  With no finding at all (here: neither input file exists) the quotient is \<^verbatim>\<open>0 / 0\<close>:
  the script has no guard, and the score it prints is \<^verbatim>\<open>NaN\<close>, under the banner of the
  lowest tier. The score is \<^verbatim>\<open>NaN\<close> exactly when the three arrays are empty.
\<close>

theorem score_without_findings_is_NaN:
  "score (printReport (printChecklist (run_files no_files))) = NaN \<and>
   status_of (score (printReport (printChecklist (run_files no_files)))) = PrecisaMelhorias \<and>
   (score (printReport st) = NaN \<longleftrightarrow> passed st = [] \<and> warnings st = [] \<and> issues st = [])"
proof -
  have "run_files no_files =
      log_out (ArquivoNaoEncontrado ''confirmacao.html'') Warning
        (log_out (ArquivoNaoEncontrado ''index.html'') Warning init)"
    by (simp add: run_files_def process_files_def files_def process_file_def no_files_def)
  then have "score (printReport (printChecklist (run_files no_files))) = NaN"
    by (simp add: printReport_def printChecklist_def compute_score_def init_def)
  moreover have
    "score (printReport st) = NaN \<longleftrightarrow> passed st = [] \<and> warnings st = [] \<and> issues st = []"
    by (simp add: printReport_def compute_score_def)
  ultimately show ?thesis by simp
qed

section \<open>The empty corpus\<close>

text \<open>
  C2, as stated (three findings, no pass, score 0), fails: on the empty corpus the
  fixed-width step finds no large width and records a pass, and the score is 25.
\<close>

theorem empty_corpus_has_a_pass:
  "passed (snd (analyzeCSS [] ''index.html'' init)) = [NoFixedWidths] \<and>
   score (printReport (snd (analyzeCSS [] ''index.html'' init))) = Score 25"
  by code_simp

text \<open>
  C2, amended. On the empty corpus \<^const>\<open>analyzeCSS\<close> adds exactly four findings: the pass
  of the fixed-width step, the tablet warning, the overflow-x warning and the mobile
  issue; run from the initial state, the report's score is 25.
\<close>

theorem empty_corpus_findings:
  "passed (snd (analyzeCSS [] filename st)) = passed st @ [NoFixedWidths] \<and>
   warnings (snd (analyzeCSS [] filename st)) = warnings st @ [TabletMissing, OverflowMissing] \<and>
   issues (snd (analyzeCSS [] filename st)) = issues st @ [MobileMissing] \<and>
   printReport (snd (analyzeCSS [] filename init)) =
     \<lparr>issues = [MobileMissing], warnings = [TabletMissing, OverflowMissing],
      passed = [NoFixedWidths], score = Score 25\<rparr>"
  by (simp add: analyzeCSS_passed analyzeCSS_warnings analyzeCSS_issues css_passed_empty
      css_warnings_empty css_issues_empty printReport_def init_def compute_score_def)

section \<open>Files without a style block\<close>

text \<open>
  C3, as stated, fails: for a file in which the style pattern matches nothing the loop
  body runs no rule at all, so the findings that the rules yield on the empty corpus (the
  mobile issue among them) are not recorded.
\<close>

theorem no_style_block_runs_no_rule:
  "issues (process_file (Some ''<html></html>'') ''index.html'' init) = [] \<and>
   warnings (process_file (Some ''<html></html>'') ''index.html'' init) = [] \<and>
   passed (process_file (Some ''<html></html>'') ''index.html'' init) = [] \<and>
   issues (snd (analyzeCSS [] ''index.html'' init)) = [MobileMissing]"
proof -
  have "js_match_all re_style ''<html></html>'' = []"
    by (simp add: re_style_def canon_def)
  then have "process_file (Some ''<html></html>'') ''index.html'' init = init"
    by (rule process_file_skip)
  then show ?thesis
    by (simp add: init_def analyzeCSS_issues css_issues_empty)
qed

text \<open>
  C3, amended. For every file that exists and in which the style pattern matches nothing
  (no style block, or a malformed one), the loop body returns normally and leaves the
  state as it was: the file is skipped, no finding is added and nothing is logged.
\<close>

theorem process_file_without_style:
  "js_match_all re_style content = [] \<Longrightarrow>
     process_file (Some content) file st = st \<and>
     issues (process_file (Some content) file st) = issues st \<and>
     warnings (process_file (Some content) file st) = warnings st \<and>
     passed (process_file (Some content) file st) = passed st \<and>
     logged (process_file (Some content) file st) = logged st"
  by (simp add: process_file_skip)

theorem process_file_without_style_witness:
  "js_match_all re_style ''<style>body{}'' = [] \<and>
   process_file (Some ''<style>body{}'') ''index.html'' init = init"
proof -
  have h: "js_match_all re_style ''<style>body{}'' = []"
    by (simp add: re_style_def canon_def)
  show ?thesis
    using h process_file_without_style [OF h, of "''index.html''" init] by simp
qed

section \<open>The element catalog\<close>

text \<open>
  C4, as stated, fails in its count: the catalog has ten selectors, not fourteen.
\<close>

theorem catalog_is_not_fourteen:
  "length criticalElements \<noteq> 14"
  by (simp add: criticalElements_def)

text \<open>
  C4, amended. The catalog has ten selectors. For every corpus, \<^const>\<open>analyzeElements\<close>
  adds, in catalog order, a pass for each selector that has a declaration block in the
  corpus and whose name without the dot occurs in a fragment after the first \<^verbatim>\<open>@media\<close>
  of the corpus split at \<^verbatim>\<open>@media\<close>, and a warning for each other selector that has a
  declaration block. A selector without a declaration block adds no finding and is
  logged as not found. No issue is added.
\<close>

theorem analyzeElements_catalog:
  "length criticalElements = 10 \<and>
   passed (analyzeElements content st) = passed st @
     map (\<lambda>(selector, name). ElementResponsive name)
       (filter (\<lambda>(selector, name).
          js_match_all (re_block selector) content \<noteq> [] \<and>
          list_ex (\<lambda>fragment. js_includes fragment (drop 1 selector))
            (drop 1 (js_split content ''@media'')))
        criticalElements) \<and>
   warnings (analyzeElements content st) = warnings st @
     map (\<lambda>(selector, name). ElementNeedsReview name)
       (filter (\<lambda>(selector, name).
          js_match_all (re_block selector) content \<noteq> [] \<and>
          \<not> list_ex (\<lambda>fragment. js_includes fragment (drop 1 selector))
            (drop 1 (js_split content ''@media'')))
        criticalElements) \<and>
   issues (analyzeElements content st) = issues st \<and>
   logged (analyzeElements content st) = logged st @ (Section, ElementosCriticos) #
     map (\<lambda>(selector, name).
       if js_match_all (re_block selector) content = [] then (Info, NaoEncontrado name)
       else if list_ex (\<lambda>fragment. js_includes fragment (drop 1 selector))
            (drop 1 (js_split content ''@media''))
       then (Success, Responsivo name)
       else (Warning, VerificarResponsividade name)) criticalElements"
proof -
  have "length criticalElements = 10"
    by (simp add: criticalElements_def)
  then show ?thesis
    by (simp add: analyzeElements_fields el_passed_def el_warnings_def el_logged_def
        el_matches_def hasResponsive_def cong: if_cong)
qed

text \<open>
  An instance: the logo has a block and occurs after \<^verbatim>\<open>@media\<close>, the hero section has a
  block and does not, the other eight selectors have no block.
\<close>

theorem analyzeElements_catalog_witness:
  "passed (analyzeElements ''.logo{} .hero{} @media{.logo{}}'' init) =
     [ElementResponsive ''Logo''] \<and>
   warnings (analyzeElements ''.logo{} .hero{} @media{.logo{}}'' init) =
     [ElementNeedsReview ''Secao Hero''] \<and>
   issues (analyzeElements ''.logo{} .hero{} @media{.logo{}}'' init) = []"
proof -
  have "el_passed ''.logo{} .hero{} @media{.logo{}}'' criticalElements =
          [ElementResponsive ''Logo'']"
    by code_simp
  moreover have "el_warnings ''.logo{} .hero{} @media{.logo{}}'' criticalElements =
          [ElementNeedsReview ''Secao Hero'']"
    by code_simp
  ultimately show ?thesis
    using analyzeElements_catalog [of "''.logo{} .hero{} @media{.logo{}}''" init]
    by (simp add: el_passed_def el_warnings_def el_matches_def hasResponsive_def init_def)
qed

section \<open>The mobile breakpoint rule\<close>



section \<open>The fixed-width rule\<close>



section \<open>The responsive-units rule\<close>

text \<open>
  C7. A corpus whose only responsive construct is a \<^verbatim>\<open>clamp(...)\<close> expression should get
  the pass for responsive units. In the script's pattern \<^verbatim>\<open>clamp\<close> is one of the suffixes
  that must follow a digit: the pattern matches exactly when some digit of the corpus is
  directly followed by one of \<^verbatim>\<open>vw\<close>, \<^verbatim>\<open>vh\<close>, \<^verbatim>\<open>rem\<close>, \<^verbatim>\<open>em\<close>, \<^verbatim>\<open>%\<close>, \<^verbatim>\<open>clamp\<close>. The
  step adds the pass when it matches and nothing otherwise. So a corpus with a
  \<^verbatim>\<open>clamp(...)\<close> expression and no digit before a unit does not match, and
  \<^const>\<open>analyzeCSS\<close> adds no such pass.
\<close>

theorem clamp_alone_gets_no_pass:
  "(hasResponsiveUnits content \<longleftrightarrow>
      (\<exists>pre d u post. content = pre @ d # u @ post \<and> is_digit d \<and>
         u \<in> set [''vw'', ''vh'', ''rem'', ''em'', ''%'', ''clamp''])) \<and>
   passed (check_units content st) =
     passed st @ (if hasResponsiveUnits content then [ResponsiveUnits] else []) \<and>
   warnings (check_units content st) = warnings st \<and>
   issues (check_units content st) = issues st \<and>
   hasResponsiveUnits ''.logo { width: clamp(200px, 300px, 400px); }'' = False \<and>
   ResponsiveUnits \<notin> set (passed (snd (analyzeCSS
     ''.logo { width: clamp(200px, 300px, 400px); }'' ''index.html'' init)))"
proof -
  have h: "hasResponsiveUnits ''.logo { width: clamp(200px, 300px, 400px); }'' = False"
    by code_simp
  have "ResponsiveUnits \<notin> set (passed (snd (analyzeCSS
     ''.logo { width: clamp(200px, 300px, 400px); }'' ''index.html'' init)))"
    by (simp add: analyzeCSS_passed css_passed_def h init_def)
  moreover have "hasResponsiveUnits content \<longleftrightarrow>
      (\<exists>pre d u post. content = pre @ d # u @ post \<and> is_digit d \<and>
         u \<in> set [''vw'', ''vh'', ''rem'', ''em'', ''%'', ''clamp''])"
    using hasResponsiveUnits_iff [of content] unfolding unit_suffixes_def .
  moreover have "passed (check_units content st) =
     passed st @ (if hasResponsiveUnits content then [ResponsiveUnits] else [])"
    "warnings (check_units content st) = warnings st"
    "issues (check_units content st) = issues st"
    by (simp_all add: check_units_def)
  ultimately show ?thesis
    using h by blast
qed

section \<open>The exit status\<close>

text \<open>
  C8. The exit status is 0 exactly when no issue was accumulated over the run and 1
  otherwise; replacing the accumulated warnings and passes changes nothing. A missing
  file adds one warning line to the log and no finding, and the run goes on: both files
  are always processed, in order, and the status is computed after them. The issues of a
  run are those of the mobile rule on the corpora of the files that were analysed.
\<close>

theorem exit_status_by_issues:
  "(main fs = 0 \<longleftrightarrow> issues (run_files fs) = []) \<and>
   (main fs = 1 \<longleftrightarrow> issues (run_files fs) \<noteq> []) \<and>
   exit_status (printReport (st\<lparr>warnings := ws, passed := ps\<rparr>)) =
     exit_status (printReport st) \<and>
   process_file None file st = log_out (ArquivoNaoEncontrado file) Warning st \<and>
   issues (process_file None file st) = issues st \<and>
   warnings (process_file None file st) = warnings st \<and>
   passed (process_file None file st) = passed st \<and>
   logged (process_file None file st) = logged st @ [(Warning, ArquivoNaoEncontrado file)] \<and>
   run_files fs =
     process_file (fs ''confirmacao.html'') ''confirmacao.html''
       (process_file (fs ''index.html'') ''index.html'' init) \<and>
   issues (run_files fs) =
     (case corpus_of (fs ''index.html'') of Some css \<Rightarrow> css_issues css | None \<Rightarrow> []) @
     (case corpus_of (fs ''confirmacao.html'') of Some css \<Rightarrow> css_issues css | None \<Rightarrow> [])"
proof -
  have run: "run_files fs =
     process_file (fs ''confirmacao.html'') ''confirmacao.html''
       (process_file (fs ''index.html'') ''index.html'' init)"
    by (simp add: run_files_def process_files_def files_def)
  have "issues (run_files fs) =
     (case corpus_of (fs ''index.html'') of Some css \<Rightarrow> css_issues css | None \<Rightarrow> []) @
     (case corpus_of (fs ''confirmacao.html'') of Some css \<Rightarrow> css_issues css | None \<Rightarrow> [])"
    unfolding run by (simp add: process_file_fields init_def)
  moreover have "process_file None file st = log_out (ArquivoNaoEncontrado file) Warning st"
    by (simp add: process_file_def)
  ultimately show ?thesis
    using run by (simp add: main_def exit_status_def printReport_def)
qed

text \<open>
  Two runs: with both files missing the status is 0; with an \<^verbatim>\<open>index.html\<close> whose style
  block is empty (no mobile breakpoint) and no \<^verbatim>\<open>confirmacao.html\<close> it is 1.
\<close>

theorem exit_status_by_issues_witness:
  "main no_files = 0 \<and> main (no_files(''index.html'' := Some ''<style></style>'')) = 1"
proof -
  have "issues (run_files no_files) = []"
    by code_simp
  moreover have
    "issues (run_files (no_files(''index.html'' := Some ''<style></style>''))) = [MobileMissing]"
    by code_simp
  ultimately show ?thesis
    using exit_status_by_issues [of no_files]
      exit_status_by_issues [of "no_files(''index.html'' := Some ''<style></style>'')"]
    by simp
qed

section \<open>The touch-target check of test-visual.js\<close>

text \<open>
  C9. A clickable element of positive width and height whose identifying text does not
  contain \<^verbatim>\<open>checkbox\<close> is flagged exactly when its width or its height is below 44. With
  44 by 44 it is not flagged, with 43 by 44 it is.
\<close>

theorem touch_target_flagged:
  "0 < el_width el \<Longrightarrow> 0 < el_height el \<Longrightarrow> \<not> js_includes (ident el) ''checkbox'' \<Longrightarrow>
     (flagged el \<longleftrightarrow> el_width el < 44 \<or> el_height el < 44) \<and>
     \<not> flagged (el\<lparr>el_width := 44, el_height := 44\<rparr>) \<and>
     flagged (el\<lparr>el_width := 43, el_height := 44\<rparr>)"
  by (simp add: flagged_def)

theorem touch_target_flagged_witness:
  "\<not> flagged \<lparr>el_id = [], el_className = ''submit-btn'', el_tagName = ''BUTTON'',
       el_width = 44, el_height = 44\<rparr> \<and>
   flagged \<lparr>el_id = [], el_className = ''submit-btn'', el_tagName = ''BUTTON'',
       el_width = 43, el_height = 44\<rparr> \<and>
   smallTouchTargets
     [\<lparr>el_id = [], el_className = ''submit-btn'', el_tagName = ''BUTTON'',
        el_width = 44, el_height = 44\<rparr>,
      \<lparr>el_id = [], el_className = ''submit-btn'', el_tagName = ''BUTTON'',
        el_width = 43, el_height = 44\<rparr>] = [(''BUTTON'', 43, 44)]"
proof -
  let ?el = "\<lparr>el_id = [], el_className = ''submit-btn'', el_tagName = ''BUTTON'',
       el_width = 43, el_height = 44\<rparr>"
  have w: "0 < el_width ?el" and h: "0 < el_height ?el"
    by simp_all
  have c: "\<not> js_includes (ident ?el) ''checkbox''"
    by (simp add: ident_def)
  from touch_target_flagged [OF w h c] show ?thesis
    by (simp add: smallTouchTargets_def)
qed

section \<open>The three arrays only grow\<close>

text \<open>
  C10. Every operation of the run leaves each of the three arrays as it was or extends it
  at the end: \<^const>\<open>analyzeCSS\<close>, \<^const>\<open>analyzeElements\<close>, the loop body for one file and
  the loop over any list of files give arrays of which the previous ones are prefixes;
  \<^const>\<open>generateSuggestions\<close> and \<^const>\<open>printChecklist\<close> leave them unchanged; and the report
  holds exactly the accumulated arrays.
\<close>

theorem findings_append_only:
  "prefix (passed st) (passed (snd (analyzeCSS content filename st))) \<and>
   prefix (warnings st) (warnings (snd (analyzeCSS content filename st))) \<and>
   prefix (issues st) (issues (snd (analyzeCSS content filename st))) \<and>
   prefix (passed st) (passed (analyzeElements content st)) \<and>
   prefix (warnings st) (warnings (analyzeElements content st)) \<and>
   prefix (issues st) (issues (analyzeElements content st)) \<and>
   passed (snd (generateSuggestions an st)) = passed st \<and>
   warnings (snd (generateSuggestions an st)) = warnings st \<and>
   issues (snd (generateSuggestions an st)) = issues st \<and>
   passed (printChecklist st) = passed st \<and>
   warnings (printChecklist st) = warnings st \<and>
   issues (printChecklist st) = issues st \<and>
   prefix (passed st) (passed (process_file existing file st)) \<and>
   prefix (warnings st) (warnings (process_file existing file st)) \<and>
   prefix (issues st) (issues (process_file existing file st)) \<and>
   prefix (passed st) (passed (process_files fs fl st)) \<and>
   prefix (warnings st) (warnings (process_files fs fl st)) \<and>
   prefix (issues st) (issues (process_files fs fl st)) \<and>
   passed (printReport st) = passed st \<and>
   warnings (printReport st) = warnings st \<and>
   issues (printReport st) = issues st"
  using process_files_prefix [of st fs fl]
  by (simp add: analyzeCSS_passed analyzeCSS_warnings analyzeCSS_issues analyzeElements_fields
      process_file_fields)

end
